theory Spec2Isabelle
  imports Main
begin

section \<open>Values of the verification service\<close>

text \<open>
  The service (\<^verbatim>\<open>verification-service/app.py\<close>) works on parsed JSON: the request body,
  the submitted credential and every artifact file are what \<^verbatim>\<open>json.load\<close> returns.
  A dict is an association list read with \<open>map_of\<close> (the first binding of a key is the
  dict's). Numbers are integers; floating point values are left out of the model.
\<close>

datatype json =
    JNull
  | JBool bool
  | JNum int
  | JStr string
  | JArr "json list"
  | JObj "(string \<times> json) list"

text \<open>
  Exceptions are values. The four builtin ones are those Python raises on the operations
  below; \<open>ExternalError\<close> is an exception raised outside this repository (by the KERI
  library, by \<^verbatim>\<open>open\<close> and \<^verbatim>\<open>json.load\<close>, by Flask), with its text.
\<close>

datatype exn =
    KeyError string
  | TypeError
  | AttributeError
  | IndexError
  | ExternalError string

text \<open>
  A message is an f-string kept in pieces: literal text, \<^verbatim>\<open>str(e)\<close> of an exception and
  \<^verbatim>\<open>str(v)\<close> of a value.
\<close>

datatype part = Txt string | StrExn exn | StrVal json

type_synonym message = "part list"

subsection \<open>Python's operations on these values\<close>

text \<open>\<^verbatim>\<open>bool(x)\<close>, as \<^verbatim>\<open>if x\<close>, \<^verbatim>\<open>not x\<close> and \<^verbatim>\<open>x or y\<close> read it.\<close>

fun truthy :: "json \<Rightarrow> bool" where
  "truthy JNull = False"
| "truthy (JBool b) = b"
| "truthy (JNum n) = (n \<noteq> 0)"
| "truthy (JStr s) = (s \<noteq> [])"
| "truthy (JArr xs) = (xs \<noteq> [])"
| "truthy (JObj kvs) = (kvs \<noteq> [])"

text \<open>\<^verbatim>\<open>x == y\<close>: \<^verbatim>\<open>True == 1\<close> holds, lists compare by position, dicts by key.\<close>

function (sequential) py_eq :: "json \<Rightarrow> json \<Rightarrow> bool" where
  "py_eq JNull JNull = True"
| "py_eq (JBool a) (JBool b) = (a = b)"
| "py_eq (JBool a) (JNum n) = (n = (if a then 1 else 0))"
| "py_eq (JNum n) (JBool a) = (n = (if a then 1 else 0))"
| "py_eq (JNum m) (JNum n) = (m = n)"
| "py_eq (JStr s) (JStr t) = (s = t)"
| "py_eq (JArr xs) (JArr ys) = list_all2 py_eq xs ys"
| "py_eq (JObj xs) (JObj ys) =
     ((\<forall>k \<in> set (map fst ys). map_of xs k \<noteq> None) \<and>
      (\<forall>k \<in> set (map fst xs).
         case map_of xs k of
           None \<Rightarrow> False
         | Some v \<Rightarrow> (case map_of ys k of None \<Rightarrow> False | Some w \<Rightarrow> py_eq v w)))"
| "py_eq _ _ = False"
  by pat_completeness auto
termination
proof -
  have in_dict: "size v < Suc (size_list (size_prod (\<lambda>x. 0) size) xs)"
    if "map_of xs k = Some v" for xs :: "(string \<times> json) list" and k v
    using that by (induction xs) (auto split: if_splits)
  have in_list: "size z < Suc (size_list size xs)"
    if "z \<in> set xs" for xs :: "json list" and z
    using that by (induction xs) auto
  show ?thesis
    by (relation "measure (\<lambda>(a, b). size a)") (auto simp: in_dict in_list)
qed

text \<open>\<^verbatim>\<open>x.get(k, default)\<close>: only a dict has the method.\<close>

fun dict_get :: "json \<Rightarrow> string \<Rightarrow> json \<Rightarrow> exn + json" where
  "dict_get (JObj kvs) k dflt = Inr (case map_of kvs k of None \<Rightarrow> dflt | Some v \<Rightarrow> v)"
| "dict_get _ k dflt = Inl AttributeError"

text \<open>\<^verbatim>\<open>x[k]\<close> for a string \<open>k\<close>: a missing key raises, and so does a value that is no dict.\<close>

fun getitem :: "json \<Rightarrow> string \<Rightarrow> exn + json" where
  "getitem (JObj kvs) k = (case map_of kvs k of None \<Rightarrow> Inl (KeyError k) | Some v \<Rightarrow> Inr v)"
| "getitem _ k = Inl TypeError"

text \<open>
  \<^verbatim>\<open>x[0]\<close>: the first element of a list, the first character of a string; a parsed
  dict has string keys only, so the key \<open>0\<close> is missing.
\<close>

fun getitem0 :: "json \<Rightarrow> exn + json" where
  "getitem0 (JArr []) = Inl IndexError"
| "getitem0 (JArr (x # xs)) = Inr x"
| "getitem0 (JStr []) = Inl IndexError"
| "getitem0 (JStr (c # cs)) = Inr (JStr [c])"
| "getitem0 (JObj kvs) = Inl (KeyError ''0'')"
| "getitem0 _ = Inl TypeError"

text \<open>\<^verbatim>\<open>s.startswith(p)\<close> and the substring test \<^verbatim>\<open>p in s\<close> on strings.\<close>

definition startswith :: "string \<Rightarrow> string \<Rightarrow> bool" where
  "startswith s p = (take (length p) s = p)"

definition substring :: "string \<Rightarrow> string \<Rightarrow> bool" where
  "substring p s = list_ex (\<lambda>i. startswith (drop i s) p) [0 ..< Suc (length s)]"

text \<open>
  \<^verbatim>\<open>x in c\<close>: a key of a dict (an unhashable \<open>x\<close> raises), an element of a list up to
  \<^verbatim>\<open>==\<close>, a substring of a string; nothing else is a container.
\<close>

fun py_in :: "json \<Rightarrow> json \<Rightarrow> exn + bool" where
  "py_in (JArr x) (JObj kvs) = Inl TypeError"
| "py_in (JObj x) (JObj kvs) = Inl TypeError"
| "py_in (JStr k) (JObj kvs) = Inr (map_of kvs k \<noteq> None)"
| "py_in x (JObj kvs) = Inr False"
| "py_in x (JArr ys) = Inr (list_ex (py_eq x) ys)"
| "py_in (JStr p) (JStr s) = Inr (substring p s)"
| "py_in x (JStr s) = Inl TypeError"
| "py_in x y = Inl TypeError"

text \<open>\<^verbatim>\<open>len(x)\<close>.\<close>

fun py_len :: "json \<Rightarrow> exn + nat" where
  "py_len (JStr s) = Inr (length s)"
| "py_len (JArr xs) = Inr (length xs)"
| "py_len (JObj kvs) = Inr (length (remdups (map fst kvs)))"
| "py_len _ = Inl TypeError"

section \<open>The KERI library\<close>

text \<open>
  The service calls three constructors of the KERI library (\<^verbatim>\<open>keripy\<close>), which is not
  part of the repository. They are parameters of the model, each a function of its
  argument that returns the object or raises:
  \<^item> \<open>SerderACDC lib sad makify\<close> is \<^verbatim>\<open>serdering.SerderACDC(sad=sad, makify=makify)\<close>; the
    result is the field map \<^verbatim>\<open>serder.sad\<close>. Without \<open>makify\<close> the library checks the body
    against its self-addressing identifier; with \<open>makify\<close> it computes the identifier
    (the issuer pipeline, \<^verbatim>\<open>generate-credentials.py\<close>, builds its credentials this way
    from a body whose \<open>d\<close> is empty);
  \<^item> \<open>Prefixer lib qb64\<close> is \<^verbatim>\<open>coring.Prefixer(qb64=qb64)\<close>, of which only the exception
    matters (\<open>None\<close>: it returned);
  \<^item> \<open>Verfer lib qb64\<close> is \<^verbatim>\<open>coring.Verfer(qb64=qb64)\<close>, a public key.
\<close>

type_synonym verfer = string

record keri =
  SerderACDC :: "json \<Rightarrow> bool \<Rightarrow> exn + (string \<times> json) list"
  Prefixer :: "json \<Rightarrow> exn option"
  Verfer :: "json \<Rightarrow> exn + verfer"

section \<open>The artifact directory\<close>

text \<open>
  The directory \<^verbatim>\<open>.well-known/keri\<close> as the service reads it: a path (relative to the
  directory) is absent, or a file on which \<^verbatim>\<open>open\<close> and \<^verbatim>\<open>json.load\<close> raise, or a file
  that parses to a value.
\<close>

type_synonym store = "string \<Rightarrow> (exn + json) option"

section \<open>The verifier's state\<close>

text \<open>
  The module's globals that the request path reads and writes: \<^verbatim>\<open>GLEIF_ROOT_AID\<close> and
  \<^verbatim>\<open>verifier_baser\<close>. The latter is \<open>NoBaser\<close> when it is still \<^verbatim>\<open>None\<close> (the start-up
  failed before the database was made); otherwise it holds the attribute \<^verbatim>\<open>kevers\<close>,
  which is \<open>None\<close> while \<^verbatim>\<open>hasattr(verifier_baser, 'kevers')\<close> is false. The table maps a
  dict key to the list of key states stored under it.
\<close>

datatype pykey = KNone | KNum int | KStr string

text \<open>The key a value is stored under; lists and dicts are unhashable.\<close>

fun hash_key :: "json \<Rightarrow> exn + pykey" where
  "hash_key JNull = Inr KNone"
| "hash_key (JBool b) = Inr (KNum (if b then 1 else 0))"
| "hash_key (JNum n) = Inr (KNum n)"
| "hash_key (JStr s) = Inr (KStr s)"
| "hash_key (JArr xs) = Inl TypeError"
| "hash_key (JObj kvs) = Inl TypeError"

record MockKever =
  pre :: json
  verfers :: "verfer list"

type_synonym kevers = "pykey \<rightharpoonup> MockKever list"

datatype baser = NoBaser | Baser "kevers option"

record verifier =
  GLEIF_ROOT_AID :: json
  verifier_baser :: baser

section \<open>Loading the key-state table\<close>

text \<open>
  \<^verbatim>\<open>load_inception_event\<close>: every exception is caught and logged, the state stays as
  it is at that point. The attribute \<^verbatim>\<open>kevers\<close> is created before the record is stored,
  so it stays created when storing raises on an unhashable identifier.
\<close>

definition load_inception_event :: "keri \<Rightarrow> verifier \<Rightarrow> json \<Rightarrow> verifier" where
  "load_inception_event lib st event_data =
     (case getitem event_data ''i'' of
        Inl e \<Rightarrow> st
      | Inr aid \<Rightarrow>
     (case getitem event_data ''k'' of
        Inl e \<Rightarrow> st
      | Inr k \<Rightarrow>
     (case getitem0 k of
        Inl e \<Rightarrow> st
      | Inr verfer_qb64 \<Rightarrow>
     (case Verfer lib verfer_qb64 of
        Inl e \<Rightarrow> st
      | Inr verfer \<Rightarrow>
     (case verifier_baser st of
        NoBaser \<Rightarrow> st
      | Baser attr \<Rightarrow>
          (let table = (case attr of None \<Rightarrow> Map.empty | Some m \<Rightarrow> m) in
           case hash_key aid of
             Inl e \<Rightarrow> st\<lparr>verifier_baser := Baser (Some table)\<rparr>
           | Inr key \<Rightarrow>
               st\<lparr>verifier_baser :=
                    Baser (Some (table(key \<mapsto> [\<lparr>pre = aid, verfers = [verfer]\<rparr>])))\<rparr>))))))"

text \<open>
  The path of the Legal Entity's inception record, from \<^verbatim>\<open>habitats.json\<close>; the inner
  \<^verbatim>\<open>try\<close> of \<^verbatim>\<open>seed_verifier_database\<close> leaves it \<^verbatim>\<open>None\<close> on any exception (joining a
  path with a value that is no string raises).
\<close>

definition le_icp_path :: "store \<Rightarrow> string option" where
  "le_icp_path store =
     (case store ''habitats.json'' of
        None \<Rightarrow> None
      | Some (Inl e) \<Rightarrow> None
      | Some (Inr habitats) \<Rightarrow>
          (case dict_get habitats ''legal_entity'' (JObj []) of
             Inl e \<Rightarrow> None
           | Inr le \<Rightarrow>
               (case dict_get le ''aid'' JNull of
                  Inl e \<Rightarrow> None
                | Inr le_aid \<Rightarrow>
                    if truthy le_aid
                    then (case le_aid of JStr s \<Rightarrow> Some (''icp/'' @ s) | _ \<Rightarrow> None)
                    else None)))"

text \<open>
  The block \<^verbatim>\<open>seed_verifier_database\<close> repeats for each file: if the path exists, parse
  it (an exception leaves the block) and load the record.
\<close>

definition load_if_exists :: "keri \<Rightarrow> store \<Rightarrow> string \<Rightarrow> verifier \<Rightarrow> exn + verifier" where
  "load_if_exists lib store path st =
     (case store path of
        None \<Rightarrow> Inr st
      | Some (Inl e) \<Rightarrow> Inl e
      | Some (Inr event_data) \<Rightarrow> Inr (load_inception_event lib st event_data))"

text \<open>
  \<^verbatim>\<open>seed_verifier_database\<close>: GLEIF, QVI, Legal Entity, in this order, under one
  \<^verbatim>\<open>try\<close>: an exception of a read ends the function, with what was loaded before.
\<close>

definition seed_verifier_database :: "keri \<Rightarrow> store \<Rightarrow> verifier \<Rightarrow> verifier" where
  "seed_verifier_database lib store st =
     (case load_if_exists lib store ''gleif-incept.json'' st of
        Inl e \<Rightarrow> st
      | Inr st1 \<Rightarrow>
     (case load_if_exists lib store ''qvi-incept.json'' st1 of
        Inl e \<Rightarrow> st1
      | Inr st2 \<Rightarrow>
     (case le_icp_path store of
        None \<Rightarrow> st2
      | Some path \<Rightarrow>
          (case load_if_exists lib store path st2 of
             Inl e \<Rightarrow> st2
           | Inr st3 \<Rightarrow> st3))))"

text \<open>
  \<^verbatim>\<open>refresh_verifier_state\<close>: the trust root follows the \<open>i\<close> of
  \<^verbatim>\<open>gleif-incept.json\<close>, then the table is seeded again. An exception before the seeding
  returns \<^verbatim>\<open>False\<close> and leaves the state.
\<close>

definition refresh_verifier_state :: "keri \<Rightarrow> store \<Rightarrow> verifier \<Rightarrow> bool \<times> verifier" where
  "refresh_verifier_state lib store st =
     (case store ''gleif-incept.json'' of
        None \<Rightarrow> (True, seed_verifier_database lib store st)
      | Some (Inl e) \<Rightarrow> (False, st)
      | Some (Inr event_data) \<Rightarrow>
          (case dict_get event_data ''i'' JNull of
             Inl e \<Rightarrow> (False, st)
           | Inr new_gleif \<Rightarrow>
               (let st' = (if truthy new_gleif \<and> \<not> py_eq new_gleif (GLEIF_ROOT_AID st)
                           then st\<lparr>GLEIF_ROOT_AID := new_gleif\<rparr> else st)
                in (True, seed_verifier_database lib store st'))))"

section \<open>What a load does to the table\<close>

text \<open>
  For the proofs, the effect of loading records is read off the records alone: nothing
  (\<open>None\<close>), or a set of bindings laid over the table (\<open>Some m\<close>; the empty set still
  creates the attribute \<^verbatim>\<open>kevers\<close>).
\<close>

definition table_of :: "kevers option \<Rightarrow> kevers" where
  "table_of attr = (case attr of None \<Rightarrow> Map.empty | Some m \<Rightarrow> m)"

fun apply_effect :: "kevers option \<Rightarrow> baser \<Rightarrow> baser" where
  "apply_effect None b = b"
| "apply_effect (Some m) NoBaser = NoBaser"
| "apply_effect (Some m) (Baser attr) = Baser (Some (table_of attr ++ m))"

fun then_effect :: "kevers option \<Rightarrow> kevers option \<Rightarrow> kevers option" where
  "then_effect None e = e"
| "then_effect e None = e"
| "then_effect (Some m) (Some n) = Some (m ++ n)"

definition load_effect :: "keri \<Rightarrow> json \<Rightarrow> kevers option" where
  "load_effect lib event_data =
     (case getitem event_data ''i'' of
        Inl e \<Rightarrow> None
      | Inr aid \<Rightarrow>
     (case getitem event_data ''k'' of
        Inl e \<Rightarrow> None
      | Inr k \<Rightarrow>
     (case getitem0 k of
        Inl e \<Rightarrow> None
      | Inr verfer_qb64 \<Rightarrow>
     (case Verfer lib verfer_qb64 of
        Inl e \<Rightarrow> None
      | Inr verfer \<Rightarrow>
          (case hash_key aid of
             Inl e \<Rightarrow> Some Map.empty
           | Inr key \<Rightarrow> Some [key \<mapsto> [\<lparr>pre = aid, verfers = [verfer]\<rparr>]])))))"

definition file_effect :: "keri \<Rightarrow> store \<Rightarrow> string \<Rightarrow> exn + kevers option" where
  "file_effect lib store path =
     (case store path of
        None \<Rightarrow> Inr None
      | Some (Inl e) \<Rightarrow> Inl e
      | Some (Inr event_data) \<Rightarrow> Inr (load_effect lib event_data))"

definition seed_effect :: "keri \<Rightarrow> store \<Rightarrow> kevers option" where
  "seed_effect lib store =
     (case file_effect lib store ''gleif-incept.json'' of
        Inl e \<Rightarrow> None
      | Inr e1 \<Rightarrow>
     (case file_effect lib store ''qvi-incept.json'' of
        Inl e \<Rightarrow> e1
      | Inr e2 \<Rightarrow>
     (case le_icp_path store of
        None \<Rightarrow> then_effect e1 e2
      | Some path \<Rightarrow>
          (case file_effect lib store path of
             Inl e \<Rightarrow> then_effect e1 e2
           | Inr e3 \<Rightarrow> then_effect (then_effect e1 e2) e3))))"

section \<open>The verification pipeline\<close>

text \<open>
  Each stage returns \<^verbatim>\<open>{'valid': False, 'reason': ...}\<close> (here \<open>Inl\<close> of the reason) or
  its result. Calls of the logger are left out, apart from the exceptions their arguments
  raise; a block that only logs under its own \<^verbatim>\<open>try\<close> is left out whole.
\<close>

record chain_entry =
  level :: string
  aid :: json

definition required_fields :: "string list" where
  "required_fields = [''v'', ''d'', ''i'', ''s'', ''a'']"

text \<open>
  \<^verbatim>\<open>validate_credential_structure\<close>: the credential is parsed as it is and, when that
  raises, parsed again with \<^verbatim>\<open>makify=True\<close>; the fields are checked on the parsed body.
\<close>

definition validate_credential_structure :: "keri \<Rightarrow> json \<Rightarrow> message + (string \<times> json) list" where
  "validate_credential_structure lib credential =
     (case (case SerderACDC lib credential False of
              Inr sad \<Rightarrow> Some sad
            | Inl e \<Rightarrow>
                (case SerderACDC lib credential True of
                   Inr sad \<Rightarrow> Some sad
                 | Inl e' \<Rightarrow> None)) of
        None \<Rightarrow> Inl [Txt ''Invalid credential format'']
      | Some sad \<Rightarrow>
          (case find (\<lambda>field. map_of sad field = None) required_fields of
             Some field \<Rightarrow> Inl [Txt ''Missing required field: '', Txt field]
           | None \<Rightarrow>
               (case map_of sad ''v'' of
                  Some (JStr v) \<Rightarrow>
                    if startswith v ''ACDC'' then Inr sad
                    else Inl [Txt ''Invalid ACDC version'']
                | _ \<Rightarrow> Inl [Txt ''Structure validation error: '', StrExn AttributeError])))"

text \<open>
  The optional binding of step 1b: \<open>Inr True\<close> when the pipeline goes on, \<open>Inr False\<close>
  when the expected DID is not in \<^verbatim>\<open>credential.a.alsoKnownAs\<close>; an exception goes to the
  \<^verbatim>\<open>except\<close> of \<^verbatim>\<open>verify_acdc_credential\<close>.
\<close>

definition did_binding :: "json \<Rightarrow> json \<Rightarrow> exn + bool" where
  "did_binding credential expected_did =
     (if \<not> truthy expected_did then Inr True
      else
        (case dict_get credential ''a'' (JObj []) of
           Inl e \<Rightarrow> Inl e
         | Inr a \<Rightarrow>
             (case dict_get a ''alsoKnownAs'' JNull of
                Inl e \<Rightarrow> Inl e
              | Inr also_known_as \<Rightarrow>
                  (case also_known_as of
                     JArr xs \<Rightarrow> py_in expected_did also_known_as
                   | _ \<Rightarrow> Inr False))))"

text \<open>
  The fallback of the issuer resolution: the subject \<open>i\<close> of \<^verbatim>\<open>qvi-credential.json\<close>
  replaces the value found so far; any exception keeps that value.
\<close>

definition issuer_from_qvi_credential :: "store \<Rightarrow> json \<Rightarrow> json" where
  "issuer_from_qvi_credential store found =
     (case store ''qvi-credential.json'' of
        None \<Rightarrow> found
      | Some (Inl e) \<Rightarrow> found
      | Some (Inr qvi_cred) \<Rightarrow>
          (case dict_get qvi_cred ''i'' JNull of
             Inl e \<Rightarrow> found
           | Inr i \<Rightarrow> i))"

text \<open>
  \<^verbatim>\<open>resolve_credential_and_issuer\<close>. The credential is parsed again, as it is. The
  expression \<^verbatim>\<open>issuer_aid or credential.get('a', {}).get('issuer')\<close> reads the credential
  only when the override is falsy. The two blocks after the format check (known
  identifiers of \<^verbatim>\<open>habitats.json\<close>, key state of the issuer) only log.
\<close>

definition resolve_credential_and_issuer :: "keri \<Rightarrow> store \<Rightarrow> json \<Rightarrow> json \<Rightarrow> message + json" where
  "resolve_credential_and_issuer lib store credential issuer_aid =
     (case SerderACDC lib credential False of
        Inl e \<Rightarrow> Inl [Txt ''Resolution error: '', StrExn e]
      | Inr serder \<Rightarrow>
          (case (if truthy issuer_aid then Inr issuer_aid
                 else (case dict_get credential ''a'' (JObj []) of
                         Inl e \<Rightarrow> Inl e
                       | Inr a \<Rightarrow> dict_get a ''issuer'' JNull)) of
             Inl e \<Rightarrow> Inl [Txt ''Resolution error: '', StrExn e]
           | Inr found \<Rightarrow>
               (let resolved_issuer_aid =
                      (if \<not> truthy found then issuer_from_qvi_credential store found
                       else found)
                in if \<not> truthy resolved_issuer_aid
                   then Inl [Txt ''Unable to determine issuer AID'']
                   else
                     (case Prefixer lib resolved_issuer_aid of
                        Some e \<Rightarrow> Inl [Txt ''Invalid issuer AID format: '', StrExn e]
                      | None \<Rightarrow> Inr resolved_issuer_aid))))"

text \<open>
  \<^verbatim>\<open>validate_signatures\<close>. The block that reads the issuer's key state from
  \<^verbatim>\<open>verifier_baser.kevers\<close> only logs, under its own \<^verbatim>\<open>try\<close>, so the state \<open>st\<close> has no
  part in the result. The last log line takes \<^verbatim>\<open>len(signatures)\<close>, which raises on a
  number or a boolean.
\<close>

definition validate_signatures :: "keri \<Rightarrow> verifier \<Rightarrow> json \<Rightarrow> json \<Rightarrow> message + json \<times> nat" where
  "validate_signatures lib st credential issuer_aid =
     (case py_in (JStr ''p'') credential of
        Inl e \<Rightarrow> Inl [Txt ''Signature validation error: '', StrExn e]
      | Inr False \<Rightarrow> Inl [Txt ''No signature data found'']
      | Inr True \<Rightarrow>
          (case SerderACDC lib credential False of
             Inl e \<Rightarrow> Inl [Txt ''Signature validation error: '', StrExn e]
           | Inr serder \<Rightarrow>
               (case dict_get credential ''p'' (JArr []) of
                  Inl e \<Rightarrow> Inl [Txt ''Signature validation error: '', StrExn e]
                | Inr signatures \<Rightarrow>
                    if \<not> truthy signatures then Inl [Txt ''Empty signature data'']
                    else
                      (case py_len signatures of
                         Inl e \<Rightarrow> Inl [Txt ''Signature validation error: '', StrExn e]
                       | Inr verified_count \<Rightarrow> Inr (signatures, verified_count)))))"

text \<open>
  The registry lookup of the chain traversal: the \<open>issuer\<close> attribute of
  \<^verbatim>\<open>qvi-credential.json\<close> when its subject is the QVI; \<^verbatim>\<open>None\<close> otherwise and on any
  exception.
\<close>

definition gleif_aid_from_registry :: "store \<Rightarrow> json \<Rightarrow> json" where
  "gleif_aid_from_registry store qvi_aid =
     (case store ''qvi-credential.json'' of
        None \<Rightarrow> JNull
      | Some (Inl e) \<Rightarrow> JNull
      | Some (Inr qvi_cred) \<Rightarrow>
          (case dict_get qvi_cred ''i'' JNull of
             Inl e \<Rightarrow> JNull
           | Inr i \<Rightarrow>
               if py_eq i qvi_aid
               then (case dict_get qvi_cred ''a'' (JObj []) of
                       Inl e \<Rightarrow> JNull
                     | Inr a \<Rightarrow>
                         (case dict_get a ''issuer'' JNull of
                            Inl e \<Rightarrow> JNull
                          | Inr gleif_aid \<Rightarrow> gleif_aid))
               else JNull))"

definition traverse_issuance_chain :: "store \<Rightarrow> json \<Rightarrow> json \<Rightarrow> message + chain_entry list" where
  "traverse_issuance_chain store credential issuer_aid =
     (case getitem credential ''i'' of
        Inl e \<Rightarrow> Inl [Txt ''Chain traversal error: '', StrExn e]
      | Inr le_aid \<Rightarrow>
          (let qvi_aid = issuer_aid;
               gleif_aid = gleif_aid_from_registry store qvi_aid
           in if \<not> truthy gleif_aid
              then Inl [Txt ''Chain traversal failed: Could not find a credential issued to QVI '',
                        StrVal qvi_aid, Txt '' in the database.'']
              else Inr [\<lparr>level = ''Legal Entity'', aid = le_aid\<rparr>,
                        \<lparr>level = ''QVI'', aid = qvi_aid\<rparr>,
                        \<lparr>level = ''GLEIF'', aid = gleif_aid\<rparr>]))"

text \<open>\<^verbatim>\<open>verifier_baser.kevers.get(key)\<close>.\<close>

definition kevers_get :: "verifier \<Rightarrow> json \<Rightarrow> exn + MockKever list option" where
  "kevers_get st key =
     (case verifier_baser st of
        NoBaser \<Rightarrow> Inl AttributeError
      | Baser None \<Rightarrow> Inl AttributeError
      | Baser (Some table) \<Rightarrow>
          (case hash_key key of
             Inl e \<Rightarrow> Inl e
           | Inr k \<Rightarrow> Inr (table k)))"

definition verify_gleif_root :: "verifier \<Rightarrow> chain_entry list \<Rightarrow> message + unit" where
  "verify_gleif_root st chain =
     (if chain = [] then Inl [Txt ''Empty issuance chain'']
      else
        (let gleif_entry = last chain in
         if level gleif_entry \<noteq> ''GLEIF'' then Inl [Txt ''Chain does not end with GLEIF'']
         else if \<not> py_eq (aid gleif_entry) (GLEIF_ROOT_AID st)
         then Inl [Txt ''GLEIF AID mismatch. Expected: '', StrVal (GLEIF_ROOT_AID st),
                   Txt '', Got: '', StrVal (aid gleif_entry)]
         else
           (case kevers_get st (GLEIF_ROOT_AID st) of
              Inl e \<Rightarrow> Inl [Txt ''GLEIF database verification failed: '', StrExn e]
            | Inr None \<Rightarrow>
                Inl [Txt ''GLEIF AID '', StrVal (GLEIF_ROOT_AID st), Txt '' not found in database'']
            | Inr (Some gleif_kevers) \<Rightarrow>
                if gleif_kevers = []
                then Inl [Txt ''GLEIF AID '', StrVal (GLEIF_ROOT_AID st),
                          Txt '' not found in database'']
                else if verfers (last gleif_kevers) = []
                then Inl [Txt ''GLEIF AID has no public keys'']
                else Inr ())))"

text \<open>
  The result of \<^verbatim>\<open>verify_acdc_credential\<close>: the dict with \<^verbatim>\<open>'verified': True\<close> and its
  fields, or the one with \<^verbatim>\<open>'verified': False\<close>, the reason and the step.
\<close>

datatype verification =
    Verified (credential_said: json) (issuer_aid: json) (issuance_chain: "chain_entry list")
  | Rejected (reason: message) (step: string)

definition verify_acdc_credential ::
    "keri \<Rightarrow> store \<Rightarrow> verifier \<Rightarrow> json \<Rightarrow> json \<Rightarrow> json \<Rightarrow> verification" where
  "verify_acdc_credential lib store st credential issuer expected_did =
     (case validate_credential_structure lib credential of
        Inl r \<Rightarrow> Rejected (Txt ''Invalid credential structure: '' # r) ''structure_validation''
      | Inr serder \<Rightarrow>
     (case did_binding credential expected_did of
        Inl e \<Rightarrow> Rejected [Txt ''Verification process error: '', StrExn e] ''process_error''
      | Inr False \<Rightarrow>
          Rejected [Txt ''Expected DID not present in credential.a.alsoKnownAs''] ''did_binding''
      | Inr True \<Rightarrow>
     (case resolve_credential_and_issuer lib store credential issuer of
        Inl r \<Rightarrow> Rejected (Txt ''Failed to resolve credential/issuer: '' # r) ''resolution''
      | Inr resolved \<Rightarrow>
     (case validate_signatures lib st credential resolved of
        Inl r \<Rightarrow> Rejected (Txt ''Signature validation failed: '' # r) ''signature_validation''
      | Inr signatures \<Rightarrow>
     (case traverse_issuance_chain store credential resolved of
        Inl r \<Rightarrow> Rejected (Txt ''Issuance chain validation failed: '' # r) ''chain_traversal''
      | Inr chain \<Rightarrow>
     (case verify_gleif_root st chain of
        Inl r \<Rightarrow> Rejected (Txt ''GLEIF root verification failed: '' # r) ''gleif_verification''
      | Inr ok \<Rightarrow>
     (case dict_get credential ''d'' JNull of
        Inl e \<Rightarrow> Rejected [Txt ''Verification process error: '', StrExn e] ''process_error''
      | Inr said \<Rightarrow> Verified said resolved chain)))))))"

section \<open>The endpoint\<close>

text \<open>
  \<^verbatim>\<open>POST /verify\<close>. The request is what \<^verbatim>\<open>request.get_json()\<close> does: it raises or
  returns the parsed body. The response is the status code and the body:
  \<open>Success_body\<close> is \<^verbatim>\<open>{success: true, verified: true, message, details}\<close>,
  \<open>Failure_body\<close> is \<^verbatim>\<open>{success: false, verified: false, error, details}\<close> and
  \<open>Error_body\<close> is \<^verbatim>\<open>{success: false, error}\<close>.
\<close>

datatype body =
    Success_body verification
  | Failure_body message verification
  | Error_body message

record response =
  status :: nat
  body :: body

definition internal_server_error :: "exn \<Rightarrow> response" where
  "internal_server_error e =
     \<lparr>status = 500, body = Error_body [Txt ''Internal server error: '', StrExn e]\<rparr>"

definition verify_credential ::
    "keri \<Rightarrow> store \<Rightarrow> verifier \<Rightarrow> exn + json \<Rightarrow> response \<times> verifier" where
  "verify_credential lib store st request_json =
     (case request_json of
        Inl e \<Rightarrow> (internal_server_error e, st)
      | Inr data \<Rightarrow>
     (case (if \<not> truthy data then Inr True
            else (case py_in (JStr ''credential'') data of
                    Inl e \<Rightarrow> Inl e
                  | Inr present \<Rightarrow> Inr (\<not> present))) of
        Inl e \<Rightarrow> (internal_server_error e, st)
      | Inr True \<Rightarrow>
          (\<lparr>status = 400, body = Error_body [Txt ''Missing 'credential' in request body'']\<rparr>, st)
      | Inr False \<Rightarrow>
     (case getitem data ''credential'' of
        Inl e \<Rightarrow> (internal_server_error e, st)
      | Inr credential \<Rightarrow>
     (case dict_get data ''issuer_aid'' JNull of
        Inl e \<Rightarrow> (internal_server_error e, st)
      | Inr issuer \<Rightarrow>
     (case dict_get data ''expected_did'' JNull of
        Inl e \<Rightarrow> (internal_server_error e, st)
      | Inr expected_did \<Rightarrow>
     (case dict_get credential ''d'' (JStr ''unknown'') of
        Inl e \<Rightarrow> (internal_server_error e, st)
      | Inr logged \<Rightarrow>
          (let st' = snd (refresh_verifier_state lib store st);
               result = verify_acdc_credential lib store st' credential issuer expected_did
           in case result of
                Verified said resolved chain \<Rightarrow>
                  (\<lparr>status = 200, body = Success_body result\<rparr>, st')
              | Rejected r s \<Rightarrow>
                  (\<lparr>status = 400, body = Failure_body r result\<rparr>, st'))))))))"

section \<open>Notions the properties are stated with\<close>

text \<open>The table as a lookup sees it: empty without a database or without the attribute.\<close>

definition entries :: "verifier \<Rightarrow> kevers" where
  "entries st = (case verifier_baser st of NoBaser \<Rightarrow> Map.empty | Baser attr \<Rightarrow> table_of attr)"

text \<open>A set of bindings whose values are each one key state with one public key.\<close>

definition single_values :: "kevers \<Rightarrow> bool" where
  "single_values m = (\<forall>k ks. m k = Some ks \<longrightarrow> (\<exists>x. ks = [x] \<and> length (verfers x) = 1))"

text \<open>Every entry of the table is one key state that holds one public key.\<close>

definition single_key_entries :: "verifier \<Rightarrow> bool" where
  "single_key_entries st =
     (\<forall>k ks. entries st k = Some ks \<longrightarrow> (\<exists>m. ks = [m] \<and> length (verfers m) = 1))"

text \<open>
  The current key state of an identifier: the last one stored under it, if the table can
  be read and has one.
\<close>

definition key_state :: "verifier \<Rightarrow> json \<Rightarrow> MockKever option" where
  "key_state st a =
     (case kevers_get st a of
        Inr (Some ks) \<Rightarrow> if ks = [] then None else Some (last ks)
      | _ \<Rightarrow> None)"

text \<open>
  An inception record that can be stored: it has an identifier that can be a key of the
  table and a key list whose first element the library accepts as a public key.
\<close>

definition well_formed_record :: "keri \<Rightarrow> json \<Rightarrow> bool" where
  "well_formed_record lib event_data =
     (case getitem event_data ''i'' of
        Inl e \<Rightarrow> False
      | Inr a \<Rightarrow>
          (case hash_key a of
             Inl e \<Rightarrow> False
           | Inr key \<Rightarrow>
               (case getitem event_data ''k'' of
                  Inl e \<Rightarrow> False
                | Inr k \<Rightarrow>
                    (case getitem0 k of
                       Inl e \<Rightarrow> False
                     | Inr q \<Rightarrow> (case Verfer lib q of Inl e \<Rightarrow> False | Inr v \<Rightarrow> True)))))"



text \<open>
  The three sources of the issuer, as the specification lists them after the caller's
  override: the \<open>issuer\<close> attribute of the credential, and the subject of the parent
  credential in the artifact directory.
\<close>

definition attribute_issuer :: "json \<Rightarrow> exn + json" where
  "attribute_issuer credential =
     (case dict_get credential ''a'' (JObj []) of
        Inl e \<Rightarrow> Inl e
      | Inr a \<Rightarrow> dict_get a ''issuer'' JNull)"

definition parent_subject :: "store \<Rightarrow> json" where
  "parent_subject store = issuer_from_qvi_credential store JNull"

section \<open>A concrete deployment\<close>

text \<open>
  A small instance for the examples. Its library computes the self-addressing identifier
  of a body as \<open>E\<close> followed by the characters of the fields \<open>v\<close>, \<open>i\<close>, \<open>s\<close> and \<open>a\<close>;
  it accepts an identifier that starts with \<open>E\<close> and a public key that starts with \<open>D\<close>.
  The artifact directory is what \<^verbatim>\<open>generate-credentials.py\<close> writes: GLEIF \<open>EGLEIF\<close>
  issues the QVI credential to \<open>EQVI\<close>, which issues the Legal Entity credential to
  \<open>ELE\<close>; the signature is stored at \<open>p.d\<close>.
\<close>

fun characters :: "json \<Rightarrow> string" where
  "characters JNull = ''null''"
| "characters (JBool b) = (if b then ''true'' else ''false'')"
| "characters (JNum n) = (if n < 0 then ''-'' else ''+'') @ replicate (nat \<bar>n\<bar>) CHR ''1''"
| "characters (JStr s) = s"
| "characters (JArr xs) = concat (map characters xs)"
| "characters (JObj kvs) = concat (map (\<lambda>kv. fst kv @ characters (snd kv)) kvs)"

definition demo_said :: "(string \<times> json) list \<Rightarrow> string" where
  "demo_said sad =
     ''E'' @ concat (map (\<lambda>field. case map_of sad field of None \<Rightarrow> [] | Some v \<Rightarrow> characters v)
                      [''v'', ''i'', ''s'', ''a''])"

definition demo_keri :: keri where
  "demo_keri =
     \<lparr>SerderACDC = (\<lambda>sad makify.
        case sad of
          JObj kvs \<Rightarrow>
            if map_of kvs ''v'' = None then Inl (ExternalError ''Missing version string field'')
            else if makify then Inr ((''d'', JStr (demo_said kvs)) # kvs)
            else if map_of kvs ''d'' = Some (JStr (demo_said kvs)) then Inr kvs
            else Inl (ExternalError ''Invalid said field'')
        | _ \<Rightarrow> Inl (ExternalError ''Invalid sad'')),
      Prefixer = (\<lambda>qb64.
        case qb64 of
          JStr s \<Rightarrow> if startswith s ''E'' then None else Some (ExternalError ''Invalid prefix'')
        | _ \<Rightarrow> Some (ExternalError ''Invalid prefix'')),
      Verfer = (\<lambda>qb64.
        case qb64 of
          JStr s \<Rightarrow> if startswith s ''D'' then Inr s else Inl (ExternalError ''Invalid key'')
        | _ \<Rightarrow> Inl (ExternalError ''Invalid key''))\<rparr>"

text \<open>A credential as the issuer pipeline writes it: the body, its identifier, the proof.\<close>

definition demo_acdc :: "string \<Rightarrow> (string \<times> json) list \<Rightarrow> json \<Rightarrow> json" where
  "demo_acdc said sad signature = JObj ((''d'', JStr said) # sad @ [(''p'', signature)])"

definition demo_icp :: "string \<Rightarrow> string list \<Rightarrow> json" where
  "demo_icp i ks =
     JObj [(''v'', JStr ''KERI10JSON00011c_''), (''i'', JStr i), (''s'', JStr ''0''),
           (''t'', JStr ''icp''), (''kt'', JStr ''1''), (''k'', JArr (map JStr ks)),
           (''nt'', JStr ''1''), (''n'', JArr []), (''bt'', JStr ''0''), (''b'', JArr []),
           (''c'', JArr []), (''a'', JArr [])]"

definition qvi_body :: "(string \<times> json) list" where
  "qvi_body =
     [(''v'', JStr ''ACDC10JSON00017a_''), (''i'', JStr ''EQVI''), (''s'', JStr ''EQVISCHEMA''),
      (''a'', JObj [(''issuer'', JStr ''EGLEIF''), (''issuee'', JStr ''EQVI''),
                    (''qualified'', JBool True)])]"

definition qvi_credential :: json where
  "qvi_credential = demo_acdc (demo_said qvi_body) qvi_body (JObj [(''d'', JStr ''0BsignedByGLEIF'')])"

definition le_body :: "string \<Rightarrow> (string \<times> json) list" where
  "le_body did =
     [(''v'', JStr ''ACDC10JSON00017a_''), (''i'', JStr ''ELE''), (''s'', JStr ''EDASCHEMA''),
      (''a'', JObj [(''alsoKnownAs'', JArr [JStr did])])]"

definition le_credential :: json where
  "le_credential =
     demo_acdc (demo_said (le_body ''did:iota:0x01'')) (le_body ''did:iota:0x01'')
       (JObj [(''d'', JStr ''0BsignedByQVI'')])"

text \<open>The same credential with a proof that a key unknown to the verifier made.\<close>

definition forged_credential :: json where
  "forged_credential =
     demo_acdc (demo_said (le_body ''did:iota:0x01'')) (le_body ''did:iota:0x01'')
       (JObj [(''d'', JStr ''0BsignedByStranger'')])"

text \<open>The same credential with one character of an attribute changed and \<open>d\<close> kept.\<close>

definition tampered_credential :: json where
  "tampered_credential =
     demo_acdc (demo_said (le_body ''did:iota:0x01'')) (le_body ''did:iota:0x02'')
       (JObj [(''d'', JStr ''0BsignedByQVI'')])"

definition demo_files :: "(string \<times> (exn + json)) list" where
  "demo_files =
     [(''gleif-incept.json'', Inr (demo_icp ''EGLEIF'' [''DGLEIF''])),
      (''qvi-incept.json'', Inr (demo_icp ''EQVI'' [''DQVI''])),
      (''habitats.json'',
         Inr (JObj [(''gleif'', JObj [(''aid'', JStr ''EGLEIF''), (''salt'', JNull)]),
                    (''qvi'', JObj [(''aid'', JStr ''EQVI''), (''salt'', JNull)]),
                    (''legal_entity'', JObj [(''aid'', JStr ''ELE''), (''salt'', JNull)])])),
      (''icp/ELE'', Inr (demo_icp ''ELE'' [''DLE''])),
      (''qvi-credential.json'', Inr qvi_credential)]"

definition demo_store :: store where
  "demo_store = map_of demo_files"

text \<open>The state after a start-up with the trust root configured: an empty table.\<close>

definition demo_start :: verifier where
  "demo_start = \<lparr>GLEIF_ROOT_AID = JStr ''EGLEIF'', verifier_baser = Baser (Some Map.empty)\<rparr>"

text \<open>The request that submits a credential and nothing else.\<close>

definition submit :: "json \<Rightarrow> exn + json" where
  "submit credential = Inr (JObj [(''credential'', credential)])"

text \<open>
  A credential whose attribute block is given by its identifier alone, a directory whose
  GLEIF inception file is not JSON, and one whose GLEIF inception record has no key list.
\<close>

definition compact_body :: "(string \<times> json) list" where
  "compact_body =
     [(''v'', JStr ''ACDC10JSON00017a_''), (''i'', JStr ''ELE''), (''s'', JStr ''EDASCHEMA''),
      (''a'', JStr ''EATTRIBUTES'')]"

definition compact_credential :: json where
  "compact_credential =
     demo_acdc (demo_said compact_body) compact_body (JObj [(''d'', JStr ''0BsignedByQVI'')])"

definition broken_store :: store where
  "broken_store = demo_store(''gleif-incept.json'' \<mapsto> Inl (ExternalError ''JSONDecodeError''))"

definition partial_store :: store where
  "partial_store = demo_store(''gleif-incept.json'' \<mapsto> Inr (JObj [(''i'', JStr ''EGLEIF'')]))"

text \<open>The state after the first request, and the chain of the Legal Entity credential.\<close>

definition demo_seeded :: verifier where
  "demo_seeded = snd (refresh_verifier_state demo_keri demo_store demo_start)"

definition demo_chain :: "chain_entry list" where
  "demo_chain =
     [\<lparr>level = ''Legal Entity'', aid = JStr ''ELE''\<rparr>, \<lparr>level = ''QVI'', aid = JStr ''EQVI''\<rparr>,
      \<lparr>level = ''GLEIF'', aid = JStr ''EGLEIF''\<rparr>]"

section \<open>Properties of the key-state table\<close>

lemma map_add_twice: "(m ++ a) ++ a = m ++ a"
  by (rule ext) (simp add: map_add_def split: option.splits)

lemma apply_then: "apply_effect e2 (apply_effect e1 b) = apply_effect (then_effect e1 e2) b"
  by (cases e1; cases e2; cases b) (simp_all add: table_of_def)

lemma apply_idem: "apply_effect e (apply_effect e b) = apply_effect e b"
  by (cases e; cases b) (simp_all add: table_of_def map_add_twice)

lemma load_as_effect:
  "load_inception_event lib st ev =
   st\<lparr>verifier_baser := apply_effect (load_effect lib ev) (verifier_baser st)\<rparr>"
  unfolding load_inception_event_def load_effect_def
  by (cases "verifier_baser st") (simp_all add: table_of_def Let_def split: sum.splits option.splits)

lemma load_if_exists_effect:
  "load_if_exists lib store path st =
     (case file_effect lib store path of
        Inl e \<Rightarrow> Inl e
      | Inr eff \<Rightarrow> Inr (st\<lparr>verifier_baser := apply_effect eff (verifier_baser st)\<rparr>))"
  by (simp add: load_if_exists_def file_effect_def load_as_effect split: option.splits sum.splits)

lemma seed_as_effect:
  "seed_verifier_database lib store st =
   st\<lparr>verifier_baser := apply_effect (seed_effect lib store) (verifier_baser st)\<rparr>"
  by (simp add: seed_verifier_database_def seed_effect_def load_if_exists_effect apply_then
      split: option.splits sum.splits)

lemma seed_idem:
  "seed_verifier_database lib store (seed_verifier_database lib store st) =
   seed_verifier_database lib store st"
  by (simp add: seed_as_effect apply_idem)

text \<open>
  C7. A second \<^verbatim>\<open>refresh_verifier_state\<close> over the same artifact files returns what the
  first returned and leaves the state the first left: the same trust root and the same
  key-state table, whatever the state was before.
\<close>

theorem refresh_idempotent:
  "refresh_verifier_state lib store (snd (refresh_verifier_state lib store st)) =
   refresh_verifier_state lib store st"
  by (simp add: refresh_verifier_state_def Let_def seed_idem seed_as_effect apply_idem
      split: option.splits sum.splits)

section \<open>Evaluating the model on the deployment\<close>

text \<open>The equations that the concrete examples unfold.\<close>

lemmas demo_defs = demo_said_def demo_keri_def demo_acdc_def demo_icp_def qvi_body_def
  qvi_credential_def le_body_def le_credential_def forged_credential_def tampered_credential_def
  demo_files_def demo_store_def demo_start_def submit_def demo_seeded_def demo_chain_def

lemmas code_defs = verify_credential_def verify_acdc_credential_def refresh_verifier_state_def
  seed_verifier_database_def load_if_exists_def load_inception_event_def le_icp_path_def
  validate_credential_structure_def did_binding_def resolve_credential_and_issuer_def
  issuer_from_qvi_credential_def validate_signatures_def gleif_aid_from_registry_def
  traverse_issuance_chain_def kevers_get_def verify_gleif_root_def required_fields_def
  startswith_def substring_def internal_server_error_def

lemmas more_defs = compact_body_def compact_credential_def broken_store_def partial_store_def
  key_state_def entries_def table_of_def well_formed_record_def

section \<open>One public key for each identifier\<close>

lemma single_values_add: "single_values m \<Longrightarrow> single_values n \<Longrightarrow> single_values (m ++ n)"
  by (auto simp: single_values_def map_add_def split: option.splits)

lemma load_effect_single: "load_effect lib ev = Some m \<Longrightarrow> single_values m"
  by (auto simp: load_effect_def single_values_def split: sum.splits if_splits)

lemma then_effect_single:
  "(\<And>m. e1 = Some m \<Longrightarrow> single_values m) \<Longrightarrow> (\<And>m. e2 = Some m \<Longrightarrow> single_values m) \<Longrightarrow>
   then_effect e1 e2 = Some m \<Longrightarrow> single_values m"
  by (cases e1; cases e2) (auto simp: single_values_add)

lemma file_effect_single: "file_effect lib store p = Inr (Some m) \<Longrightarrow> single_values m"
  by (auto simp: file_effect_def load_effect_single split: option.splits sum.splits)

lemma seed_effect_single: "seed_effect lib store = Some m \<Longrightarrow> single_values m"
  unfolding seed_effect_def
  by (auto split: sum.splits option.splits
      intro: file_effect_single then_effect_single
      elim!: then_effect_single[rotated 2])

lemma single_key_entries_alt: "single_key_entries st = single_values (entries st)"
  by (simp add: single_key_entries_def single_values_def)

lemma entries_apply:
  "entries (st\<lparr>verifier_baser := apply_effect e (verifier_baser st)\<rparr>) =
     (case e of None \<Rightarrow> entries st
      | Some m \<Rightarrow> (case verifier_baser st of NoBaser \<Rightarrow> Map.empty | Baser attr \<Rightarrow> entries st ++ m))"
  by (cases e; cases "verifier_baser st") (simp_all add: entries_def table_of_def)

lemma single_apply:
  "single_key_entries st \<Longrightarrow> (\<And>m. e = Some m \<Longrightarrow> single_values m) \<Longrightarrow>
   single_key_entries (st\<lparr>verifier_baser := apply_effect e (verifier_baser st)\<rparr>)"
  by (auto simp: single_key_entries_alt entries_apply single_values_add split: option.splits baser.splits)
    (simp add: single_values_def)

lemma single_load: "single_key_entries st \<Longrightarrow> single_key_entries (load_inception_event lib st ev)"
  by (simp add: load_as_effect single_apply load_effect_single)

lemma single_seed: "single_key_entries st \<Longrightarrow> single_key_entries (seed_verifier_database lib store st)"
  by (simp add: seed_as_effect single_apply seed_effect_single)

lemma single_root: "single_key_entries (st\<lparr>GLEIF_ROOT_AID := x\<rparr>) = single_key_entries st"
  by (simp add: single_key_entries_def entries_def)

lemma single_refresh:
  "single_key_entries st \<Longrightarrow> single_key_entries (snd (refresh_verifier_state lib store st))"
  by (simp add: refresh_verifier_state_def Let_def single_seed single_root
      split: option.splits sum.splits)

text \<open>
  C10. A record that can be stored is stored as one key state that holds one public key,
  the first element of the record's key list \<open>k\<close>, whatever follows it in the list. So
  when every entry of the table holds exactly one public key, every entry still does after
  \<^verbatim>\<open>load_inception_event\<close>, \<^verbatim>\<open>seed_verifier_database\<close> and
  \<^verbatim>\<open>refresh_verifier_state\<close>; the empty table of a fresh database is such a table.
\<close>

theorem first_key_only:
  "(verifier_baser st = Baser attr \<and> getitem ev ''i'' = Inr a \<and> hash_key a = Inr key \<and>
    getitem ev ''k'' = Inr (JArr (q # others)) \<and> Verfer lib q = Inr v
      \<longrightarrow> entries (load_inception_event lib st ev) key = Some [\<lparr>pre = a, verfers = [v]\<rparr>]) \<and>
   (single_key_entries st
      \<longrightarrow> single_key_entries (load_inception_event lib st ev) \<and>
          single_key_entries (seed_verifier_database lib store st) \<and>
          single_key_entries (snd (refresh_verifier_state lib store st)))"
proof (intro conjI impI)
  assume "verifier_baser st = Baser attr \<and> getitem ev ''i'' = Inr a \<and> hash_key a = Inr key \<and>
    getitem ev ''k'' = Inr (JArr (q # others)) \<and> Verfer lib q = Inr v"
  then show "entries (load_inception_event lib st ev) key = Some [\<lparr>pre = a, verfers = [v]\<rparr>]"
    by (simp add: load_inception_event_def entries_def table_of_def)
next
  assume "single_key_entries st"
  then show "single_key_entries (load_inception_event lib st ev)"
    and "single_key_entries (seed_verifier_database lib store st)"
    and "single_key_entries (snd (refresh_verifier_state lib store st))"
    by (simp_all add: single_load single_seed single_refresh)
qed

text \<open>
  The record of the example declares two keys; the first is stored.
\<close>

theorem first_key_only_witness:
  "entries (load_inception_event demo_keri demo_start (demo_icp ''EGLEIF'' [''DGLEIF'', ''DSECOND'']))
     (KStr ''EGLEIF'') = Some [\<lparr>pre = JStr ''EGLEIF'', verfers = [''DGLEIF'']\<rparr>] \<and>
   single_key_entries (snd (refresh_verifier_state demo_keri demo_store demo_start))"
  using first_key_only [of demo_start "Some Map.empty" "demo_icp ''EGLEIF'' [''DGLEIF'', ''DSECOND'']"
      "JStr ''EGLEIF''" "KStr ''EGLEIF''" "JStr ''DGLEIF''" "[JStr ''DSECOND'']" demo_keri "''DGLEIF''"
      demo_store]
  by (simp add: demo_defs startswith_def single_key_entries_def entries_def table_of_def)

section \<open>The issuance chain\<close>

text \<open>
  C9. A chain that \<^verbatim>\<open>traverse_issuance_chain\<close> returns, and the chain of every
  successful verification, has exactly the three entries labelled \<open>Legal Entity\<close>,
  \<open>QVI\<close>, \<open>GLEIF\<close>, in this order, whatever the credential holds.
\<close>

theorem chain_levels:
  "(traverse_issuance_chain store credential issuer = Inr chain
      \<longrightarrow> map level chain = [''Legal Entity'', ''QVI'', ''GLEIF'']) \<and>
   (verify_acdc_credential lib store st credential issuer expected_did = Verified said resolved verified_chain
      \<longrightarrow> map level verified_chain = [''Legal Entity'', ''QVI'', ''GLEIF''])"
  by (auto simp: traverse_issuance_chain_def verify_acdc_credential_def Let_def
      split: sum.splits if_splits bool.splits)

text \<open>
  The deployment of the example.
\<close>

theorem chain_levels_witness:
  "verify_acdc_credential demo_keri demo_store
     (snd (refresh_verifier_state demo_keri demo_store demo_start)) le_credential JNull JNull =
   Verified (JStr (demo_said (le_body ''did:iota:0x01''))) (JStr ''EQVI'')
     [\<lparr>level = ''Legal Entity'', aid = JStr ''ELE''\<rparr>, \<lparr>level = ''QVI'', aid = JStr ''EQVI''\<rparr>,
      \<lparr>level = ''GLEIF'', aid = JStr ''EGLEIF''\<rparr>] \<and>
   map level [\<lparr>level = ''Legal Entity'', aid = JStr ''ELE''\<rparr>, \<lparr>level = ''QVI'', aid = JStr ''EQVI''\<rparr>,
      \<lparr>level = ''GLEIF'', aid = JStr ''EGLEIF''\<rparr>] = [''Legal Entity'', ''QVI'', ''GLEIF'']"
  using chain_levels [where store = demo_store and credential = le_credential and lib = demo_keri
      and st = "snd (refresh_verifier_state demo_keri demo_store demo_start)"
      and issuer = JNull and expected_did = JNull
      and said = "JStr (demo_said (le_body ''did:iota:0x01''))" and resolved = "JStr ''EQVI''"
      and verified_chain = "[\<lparr>level = ''Legal Entity'', aid = JStr ''ELE''\<rparr>,
        \<lparr>level = ''QVI'', aid = JStr ''EQVI''\<rparr>, \<lparr>level = ''GLEIF'', aid = JStr ''EGLEIF''\<rparr>]"]
  by (simp add: demo_defs code_defs Let_def)

section \<open>The root of trust\<close>

lemma traverse_shape:
  "traverse_issuance_chain store credential issuer = Inr chain \<Longrightarrow>
   chain \<noteq> [] \<and> level (last chain) = ''GLEIF''"
  by (auto simp: traverse_issuance_chain_def Let_def split: sum.splits if_splits)

lemma gleif_step_origin:
  "verify_acdc_credential lib store st credential override expected_did =
     Rejected r ''gleif_verification'' \<Longrightarrow>
   \<exists>resolved traversed why.
      traverse_issuance_chain store credential resolved = Inr traversed \<and>
      verify_gleif_root st traversed = Inl why \<and>
      r = Txt ''GLEIF root verification failed: '' # why"
  by (auto simp: verify_acdc_credential_def split: sum.splits bool.splits)

text \<open>
  C4. On a chain that the traversal returned, \<^verbatim>\<open>verify_gleif_root\<close> rejects exactly
  when the identifier at the top of the chain is not the configured trust root, or the
  trust root has no key state in the table, or that key state has no public key; it
  passes exactly when the top is the trust root and its key state has a public key.
  The pipeline gives the step \<open>gleif_verification\<close> to the rejections of this stage and
  to no other.
\<close>

theorem root_verification_exact:
  "(traverse_issuance_chain store credential issuer = Inr chain \<longrightarrow>
     ((\<exists>r. verify_gleif_root st chain = Inl r) \<longleftrightarrow>
        (\<not> py_eq (aid (last chain)) (GLEIF_ROOT_AID st) \<or>
         key_state st (GLEIF_ROOT_AID st) = None \<or>
         (\<exists>m. key_state st (GLEIF_ROOT_AID st) = Some m \<and> verfers m = []))) \<and>
     (verify_gleif_root st chain = Inr () \<longleftrightarrow>
        (py_eq (aid (last chain)) (GLEIF_ROOT_AID st) \<and>
         (\<exists>m. key_state st (GLEIF_ROOT_AID st) = Some m \<and> verfers m \<noteq> [])))) \<and>
   (verify_acdc_credential lib store st credential override expected_did =
      Rejected r ''gleif_verification'' \<longrightarrow>
      (\<exists>resolved traversed why.
         traverse_issuance_chain store credential resolved = Inr traversed \<and>
         verify_gleif_root st traversed = Inl why \<and>
         r = Txt ''GLEIF root verification failed: '' # why))"
proof (rule conjI)
  show "traverse_issuance_chain store credential issuer = Inr chain \<longrightarrow>
     ((\<exists>r. verify_gleif_root st chain = Inl r) \<longleftrightarrow>
        (\<not> py_eq (aid (last chain)) (GLEIF_ROOT_AID st) \<or>
         key_state st (GLEIF_ROOT_AID st) = None \<or>
         (\<exists>m. key_state st (GLEIF_ROOT_AID st) = Some m \<and> verfers m = []))) \<and>
     (verify_gleif_root st chain = Inr () \<longleftrightarrow>
        (py_eq (aid (last chain)) (GLEIF_ROOT_AID st) \<and>
         (\<exists>m. key_state st (GLEIF_ROOT_AID st) = Some m \<and> verfers m \<noteq> [])))"
  proof
    assume t: "traverse_issuance_chain store credential issuer = Inr chain"
    from traverse_shape [OF t] have c: "chain \<noteq> []" "level (last chain) = ''GLEIF''"
      by simp_all
    show "((\<exists>r. verify_gleif_root st chain = Inl r) \<longleftrightarrow>
          (\<not> py_eq (aid (last chain)) (GLEIF_ROOT_AID st) \<or>
           key_state st (GLEIF_ROOT_AID st) = None \<or>
           (\<exists>m. key_state st (GLEIF_ROOT_AID st) = Some m \<and> verfers m = []))) \<and>
       (verify_gleif_root st chain = Inr () \<longleftrightarrow>
          (py_eq (aid (last chain)) (GLEIF_ROOT_AID st) \<and>
           (\<exists>m. key_state st (GLEIF_ROOT_AID st) = Some m \<and> verfers m \<noteq> [])))"
      using c
      by (cases "kevers_get st (GLEIF_ROOT_AID st)")
         (auto simp: verify_gleif_root_def key_state_def Let_def split: option.splits)
  qed
next
  show "verify_acdc_credential lib store st credential override expected_did =
      Rejected r ''gleif_verification'' \<longrightarrow>
      (\<exists>resolved traversed why.
         traverse_issuance_chain store credential resolved = Inr traversed \<and>
         verify_gleif_root st traversed = Inl why \<and>
         r = Txt ''GLEIF root verification failed: '' # why)"
    by (rule impI) (rule gleif_step_origin)
qed

text \<open>
  The deployment of the example: its root passes, and the same chain is rejected once
  another trust root is configured.
\<close>

theorem root_verification_exact_witness:
  "traverse_issuance_chain demo_store le_credential (JStr ''EQVI'') = Inr demo_chain \<and>
   verify_gleif_root demo_seeded demo_chain = Inr () \<and>
   (\<exists>r. verify_gleif_root (demo_seeded\<lparr>GLEIF_ROOT_AID := JStr ''EOTHER''\<rparr>) demo_chain = Inl r)"
  using root_verification_exact [where store = demo_store and credential = le_credential
      and issuer = "JStr ''EQVI''" and chain = demo_chain and st = demo_seeded]
    root_verification_exact [where store = demo_store and credential = le_credential
      and issuer = "JStr ''EQVI''" and chain = demo_chain
      and st = "demo_seeded\<lparr>GLEIF_ROOT_AID := JStr ''EOTHER''\<rparr>"]
  by (simp add: demo_defs code_defs key_state_def Let_def)

section \<open>The two-level scenario\<close>

lemma then_effect_Some:
  "then_effect (Some m) e = Some (case e of None \<Rightarrow> m | Some n \<Rightarrow> m ++ n)"
  by (cases e) simp_all

lemma seed_effect_keeps_gleif:
  assumes "file_effect lib store ''gleif-incept.json'' = Inr (Some m)" and "m k \<noteq> None"
  shows "\<exists>M. seed_effect lib store = Some M \<and> M k \<noteq> None"
  using assms
  by (auto simp: seed_effect_def then_effect_Some map_add_def split: sum.splits option.splits)

lemma seeded_root:
  assumes db: "verifier_baser st = Baser attr"
    and gfile: "store ''gleif-incept.json'' = Some (Inr (JObj icp))"
    and i: "map_of icp ''i'' = Some (JStr R)"
    and k: "map_of icp ''k'' = Some (JArr (key # others))"
    and v: "Verfer lib key = Inr v"
  shows "\<exists>x w. kevers_get (seed_verifier_database lib store st) (JStr R) = Inr (Some [x]) \<and>
           verfers x = [w]"
proof -
  have "file_effect lib store ''gleif-incept.json'' =
          Inr (Some [KStr R \<mapsto> [\<lparr>pre = JStr R, verfers = [v]\<rparr>]])"
    by (simp add: file_effect_def load_effect_def gfile i k v)
  from seed_effect_keeps_gleif [OF this, of "KStr R"]
  obtain M where M: "seed_effect lib store = Some M" "M (KStr R) \<noteq> None"
    by auto
  from seed_effect_single [OF M(1)] M(2)
  obtain x where x: "M (KStr R) = Some [x]" "length (verfers x) = 1"
    by (auto simp: single_values_def)
  then obtain w where "verfers x = [w]"
    by (cases "verfers x") auto
  with x M(1) show ?thesis
    by (simp add: seed_as_effect db kevers_get_def map_add_def)
qed

text \<open>
  C8. The two-level setup: trust root \<open>R\<close> with an inception record in the directory,
  the QVI credential (subject \<open>Q\<close>, issuer \<open>R\<close>) in the directory, and the submitted
  credential with subject \<open>L\<close>, issued by \<open>Q\<close> (named in its attributes, or found
  through the QVI credential), carrying a proof. The endpoint answers 200 with the chain
  \<open>L\<close>, \<open>Q\<close>, \<open>R\<close>.
\<close>

theorem two_level_chain_verified:
  assumes root: "GLEIF_ROOT_AID st = JStr R"
    and db: "verifier_baser st = Baser attr"
    and ids: "R \<noteq> []" "Q \<noteq> []"
    and icp: "store ''gleif-incept.json'' = Some (Inr (JObj icp))"
      "map_of icp ''i'' = Some (JStr R)"
      "map_of icp ''k'' = Some (JArr (key # others))"
      "Verfer lib key = Inr v"
    and parent: "store ''qvi-credential.json'' = Some (Inr (JObj qvi))"
      "map_of qvi ''i'' = Some (JStr Q)"
      "map_of qvi ''a'' = Some (JObj qvi_attrs)"
      "map_of qvi_attrs ''issuer'' = Some (JStr R)"
    and leaf: "map_of cred ''i'' = Some (JStr L)"
      "map_of cred ''a'' = Some (JObj attrs)"
      "map_of attrs ''issuer'' = None \<or> map_of attrs ''issuer'' = Some (JStr Q)"
      "map_of cred ''p'' = Some signatures"
      "truthy signatures"
      "py_len signatures = Inr n"
    and parses: "SerderACDC lib (JObj cred) False = Inr sad"
      "list_all (\<lambda>field. map_of sad field \<noteq> None) required_fields"
      "map_of sad ''v'' = Some (JStr version)"
      "startswith version ''ACDC''"
    and prefix: "Prefixer lib (JStr Q) = None"
  shows "fst (verify_credential lib store st (submit (JObj cred))) =
           \<lparr>status = 200,
            body = Success_body
              (Verified (case map_of cred ''d'' of None \<Rightarrow> JNull | Some d \<Rightarrow> d) (JStr Q)
                 [\<lparr>level = ''Legal Entity'', aid = JStr L\<rparr>,
                  \<lparr>level = ''QVI'', aid = JStr Q\<rparr>,
                  \<lparr>level = ''GLEIF'', aid = JStr R\<rparr>])\<rparr>"
proof -
  define st' where "st' = snd (refresh_verifier_state lib store st)"
  have st': "st' = seed_verifier_database lib store st"
    by (simp add: st'_def refresh_verifier_state_def icp root Let_def)
  have root': "GLEIF_ROOT_AID st' = JStr R"
    by (simp add: st' seed_as_effect root)
  have "\<exists>x w. kevers_get (seed_verifier_database lib store st) (JStr R) = Inr (Some [x]) \<and>
           verfers x = [w]"
    using db icp by (rule seeded_root)
  then obtain x w where
    keys: "kevers_get st' (JStr R) = Inr (Some [x])" "verfers x = [w]"
    unfolding st' by blast
  have stage1: "validate_credential_structure lib (JObj cred) = Inr sad"
    using parses by (simp add: validate_credential_structure_def required_fields_def)
  have stage1b: "did_binding (JObj cred) JNull = Inr True"
    by (simp add: did_binding_def)
  have stage2: "resolve_credential_and_issuer lib store (JObj cred) JNull = Inr (JStr Q)"
    using leaf(3) parses(1) leaf(2) parent(1,2) ids prefix
    by (auto simp: resolve_credential_and_issuer_def issuer_from_qvi_credential_def Let_def)
  have stage3: "validate_signatures lib st' (JObj cred) (JStr Q) = Inr (signatures, n)"
    using leaf(4,5,6) parses(1) by (simp add: validate_signatures_def)
  have stage4: "traverse_issuance_chain store (JObj cred) (JStr Q) =
      Inr [\<lparr>level = ''Legal Entity'', aid = JStr L\<rparr>, \<lparr>level = ''QVI'', aid = JStr Q\<rparr>,
           \<lparr>level = ''GLEIF'', aid = JStr R\<rparr>]"
    using leaf(1) parent ids
    by (simp add: traverse_issuance_chain_def gleif_aid_from_registry_def Let_def)
  have stage5: "verify_gleif_root st'
      [\<lparr>level = ''Legal Entity'', aid = JStr L\<rparr>, \<lparr>level = ''QVI'', aid = JStr Q\<rparr>,
       \<lparr>level = ''GLEIF'', aid = JStr R\<rparr>] = Inr ()"
    using keys root' by (simp add: verify_gleif_root_def Let_def)
  have "verify_acdc_credential lib store st' (JObj cred) JNull JNull =
          Verified (case map_of cred ''d'' of None \<Rightarrow> JNull | Some d \<Rightarrow> d) (JStr Q)
            [\<lparr>level = ''Legal Entity'', aid = JStr L\<rparr>, \<lparr>level = ''QVI'', aid = JStr Q\<rparr>,
             \<lparr>level = ''GLEIF'', aid = JStr R\<rparr>]"
    by (simp add: verify_acdc_credential_def stage1 stage1b stage2 stage3 stage4 stage5)
  then show ?thesis
    by (simp add: verify_credential_def submit_def Let_def flip: st'_def)
qed

text \<open>
  The deployment of the example.
\<close>

theorem two_level_chain_verified_witness:
  "fst (verify_credential demo_keri demo_store demo_start (submit le_credential)) =
     \<lparr>status = 200,
      body = Success_body
        (Verified (JStr (demo_said (le_body ''did:iota:0x01''))) (JStr ''EQVI'')
           [\<lparr>level = ''Legal Entity'', aid = JStr ''ELE''\<rparr>,
            \<lparr>level = ''QVI'', aid = JStr ''EQVI''\<rparr>,
            \<lparr>level = ''GLEIF'', aid = JStr ''EGLEIF''\<rparr>])\<rparr>"
  using two_level_chain_verified [where st = demo_start and R = "''EGLEIF''" and Q = "''EQVI''"
      and L = "''ELE''" and attr = "Some Map.empty" and store = demo_store and lib = demo_keri
      and icp = "[(''v'', JStr ''KERI10JSON00011c_''), (''i'', JStr ''EGLEIF''), (''s'', JStr ''0''),
           (''t'', JStr ''icp''), (''kt'', JStr ''1''), (''k'', JArr [JStr ''DGLEIF'']),
           (''nt'', JStr ''1''), (''n'', JArr []), (''bt'', JStr ''0''), (''b'', JArr []),
           (''c'', JArr []), (''a'', JArr [])]"
      and key = "JStr ''DGLEIF''" and others = "[]" and v = "''DGLEIF''"
      and qvi = "(''d'', JStr (demo_said qvi_body)) # qvi_body @ [(''p'', JObj [(''d'', JStr ''0BsignedByGLEIF'')])]"
      and qvi_attrs = "[(''issuer'', JStr ''EGLEIF''), (''issuee'', JStr ''EQVI''), (''qualified'', JBool True)]"
      and cred = "(''d'', JStr (demo_said (le_body ''did:iota:0x01''))) # le_body ''did:iota:0x01'' @
                [(''p'', JObj [(''d'', JStr ''0BsignedByQVI'')])]"
      and attrs = "[(''alsoKnownAs'', JArr [JStr ''did:iota:0x01''])]"
      and signatures = "JObj [(''d'', JStr ''0BsignedByQVI'')]" and n = 1
      and sad = "(''d'', JStr (demo_said (le_body ''did:iota:0x01''))) # le_body ''did:iota:0x01'' @
                [(''p'', JObj [(''d'', JStr ''0BsignedByQVI'')])]"
      and version = "''ACDC10JSON00017a_''"]
  by (simp add: demo_defs startswith_def required_fields_def)

section \<open>Signatures and self-addressing identifiers\<close>

lemma signatures_not_checked:
  "validate_signatures lib st credential issuer = validate_signatures lib st' credential issuer'"
  by (simp add: validate_signatures_def)

text \<open>
  C1. The signature stage never looks at a key: \<^verbatim>\<open>validate_signatures\<close> passes any
  credential that parses and has a non-empty \<open>p\<close>. In the deployment of the example the
  issuer \<open>EQVI\<close> has the one key \<open>DQVI\<close>, and the credential whose proof another key
  made is verified.
\<close>

theorem forged_signature_accepted:
  "key_state demo_seeded (JStr ''EQVI'') = Some \<lparr>pre = JStr ''EQVI'', verfers = [''DQVI'']\<rparr> \<and>
   fst (verify_credential demo_keri demo_store demo_start (submit forged_credential)) =
     \<lparr>status = 200,
      body = Success_body
        (Verified (JStr (demo_said (le_body ''did:iota:0x01''))) (JStr ''EQVI'') demo_chain)\<rparr>"
  by (simp add: demo_defs code_defs more_defs Let_def)

text \<open>
  C2, as stated, fails: the credential whose attribute was changed after its identifier
  was computed passes \<^verbatim>\<open>validate_credential_structure\<close> (the second parse, with
  \<^verbatim>\<open>makify=True\<close>, computes a fresh identifier), and is rejected by the next stage that
  parses it as it is, with the step \<open>resolution\<close>.
\<close>

theorem said_mismatch_counterexample:
  "demo_said (le_body ''did:iota:0x02'') \<noteq> demo_said (le_body ''did:iota:0x01'') \<and>
   (\<exists>sad. validate_credential_structure demo_keri tampered_credential = Inr sad) \<and>
   fst (verify_credential demo_keri demo_store demo_start (submit tampered_credential)) =
     \<lparr>status = 400,
      body = Failure_body
        [Txt ''Failed to resolve credential/issuer: '', Txt ''Resolution error: '',
         StrExn (ExternalError ''Invalid said field'')]
        (Rejected
           [Txt ''Failed to resolve credential/issuer: '', Txt ''Resolution error: '',
            StrExn (ExternalError ''Invalid said field'')]
           ''resolution'')\<rparr>"
  by (simp add: demo_defs code_defs more_defs Let_def)

lemma structure_after_mismatch:
  "SerderACDC lib credential False = Inl e \<Longrightarrow>
   (\<exists>sad. validate_credential_structure lib credential = Inr sad) \<longleftrightarrow>
   (\<exists>sad v. SerderACDC lib credential True = Inr sad \<and>
      list_all (\<lambda>field. map_of sad field \<noteq> None) required_fields \<and>
      map_of sad ''v'' = Some (JStr v) \<and> startswith v ''ACDC'')"
  by (auto simp: validate_credential_structure_def required_fields_def
      split: sum.splits option.splits json.splits if_splits)

text \<open>
  C2, amended. A credential that the library does not parse as it is (as on an identifier
  that does not match) is always rejected. The step is \<open>structure_validation\<close> only when
  the parse with \<^verbatim>\<open>makify=True\<close> raises too, or its body lacks a required field, or its
  version is not a string that starts with \<open>ACDC\<close>. Otherwise the step is
  \<open>process_error\<close> or \<open>did_binding\<close> when an expected DID is given and the binding check
  raises or fails, and \<open>resolution\<close>, with the library's exception, in every other case.
\<close>

theorem said_mismatch_rejected:
  "SerderACDC lib credential False = Inl e \<longrightarrow>
     (\<exists>r s. verify_acdc_credential lib store st credential issuer expected_did = Rejected r s \<and>
        (if \<exists>sad v. SerderACDC lib credential True = Inr sad \<and>
              list_all (\<lambda>field. map_of sad field \<noteq> None) required_fields \<and>
              map_of sad ''v'' = Some (JStr v) \<and> startswith v ''ACDC''
         then (case did_binding credential expected_did of
                 Inl x \<Rightarrow> s = ''process_error''
               | Inr False \<Rightarrow> s = ''did_binding''
               | Inr True \<Rightarrow>
                   s = ''resolution'' \<and>
                   r = [Txt ''Failed to resolve credential/issuer: '', Txt ''Resolution error: '',
                        StrExn e])
         else s = ''structure_validation''))"
proof
  assume strict: "SerderACDC lib credential False = Inl e"
  have res: "resolve_credential_and_issuer lib store credential issuer =
               Inl [Txt ''Resolution error: '', StrExn e]"
    by (simp add: resolve_credential_and_issuer_def strict)
  show "\<exists>r s. verify_acdc_credential lib store st credential issuer expected_did = Rejected r s \<and>
        (if \<exists>sad v. SerderACDC lib credential True = Inr sad \<and>
              list_all (\<lambda>field. map_of sad field \<noteq> None) required_fields \<and>
              map_of sad ''v'' = Some (JStr v) \<and> startswith v ''ACDC''
         then (case did_binding credential expected_did of
                 Inl x \<Rightarrow> s = ''process_error''
               | Inr False \<Rightarrow> s = ''did_binding''
               | Inr True \<Rightarrow>
                   s = ''resolution'' \<and>
                   r = [Txt ''Failed to resolve credential/issuer: '', Txt ''Resolution error: '',
                        StrExn e])
         else s = ''structure_validation'')"
    unfolding structure_after_mismatch [OF strict, symmetric]
    by (cases "validate_credential_structure lib credential")
       (auto simp: verify_acdc_credential_def res split: sum.splits bool.splits)
qed

text \<open>
  The tampered credential of the example.
\<close>

theorem said_mismatch_rejected_witness:
  "SerderACDC demo_keri tampered_credential False = Inl (ExternalError ''Invalid said field'') \<and>
   (\<exists>r. verify_acdc_credential demo_keri demo_store demo_seeded tampered_credential JNull JNull =
      Rejected r ''resolution'')"
  using said_mismatch_rejected [where lib = demo_keri and credential = tampered_credential
      and e = "ExternalError ''Invalid said field''" and store = demo_store and st = demo_seeded
      and issuer = JNull and expected_did = JNull]
  by (simp add: demo_defs code_defs more_defs Let_def)

section \<open>Issuer resolution\<close>

text \<open>
  C3, as stated, fails in the direction "rejected only if": the stage also rejects a
  credential for which a source yields a well-formed identifier. The tampered credential
  is rejected although the caller's override is well formed, because the stage parses the
  credential first; the credential whose attribute block is a string parses, and is
  rejected although the parent credential yields \<open>EQVI\<close>, because reading its
  \<open>issuer\<close> attribute raises.
\<close>

theorem resolution_counterexample:
  "truthy (JStr ''EQVI'') \<and> Prefixer demo_keri (JStr ''EQVI'') = None \<and>
   resolve_credential_and_issuer demo_keri demo_store tampered_credential (JStr ''EQVI'') =
     Inl [Txt ''Resolution error: '', StrExn (ExternalError ''Invalid said field'')] \<and>
   parent_subject demo_store = JStr ''EQVI'' \<and>
   (\<exists>sad. SerderACDC demo_keri compact_credential False = Inr sad) \<and>
   resolve_credential_and_issuer demo_keri demo_store compact_credential JNull =
     Inl [Txt ''Resolution error: '', StrExn AttributeError]"
  by (simp add: demo_defs code_defs more_defs parent_subject_def Let_def)

lemma fallback_truthy:
  "\<not> truthy found \<Longrightarrow>
   truthy (issuer_from_qvi_credential store found) = truthy (parent_subject store) \<and>
   (truthy (parent_subject store) \<longrightarrow>
      issuer_from_qvi_credential store found = parent_subject store)"
  by (auto simp: issuer_from_qvi_credential_def parent_subject_def split: option.splits sum.splits)

text \<open>
  C3, amended. The stage rejects when the credential does not parse as it is, and when no
  override is given and the attribute block cannot be read. Otherwise it takes the first
  truthy value among the override, the \<open>issuer\<close> attribute and the subject of the parent
  credential in the directory, in this order, and rejects exactly when there is none or
  the library does not accept the value as an identifier.
\<close>

theorem issuer_resolution_priority:
  "(SerderACDC lib credential False = Inl e \<longrightarrow>
      resolve_credential_and_issuer lib store credential override =
        Inl [Txt ''Resolution error: '', StrExn e]) \<and>
   (SerderACDC lib credential False = Inr sad \<and> \<not> truthy override \<and>
    attribute_issuer credential = Inl x \<longrightarrow>
      resolve_credential_and_issuer lib store credential override =
        Inl [Txt ''Resolution error: '', StrExn x]) \<and>
   (SerderACDC lib credential False = Inr sad \<and>
    (truthy override \<or> attribute_issuer credential = Inr embedded) \<longrightarrow>
      resolve_credential_and_issuer lib store credential override =
        (case find truthy [override, embedded, parent_subject store] of
           None \<Rightarrow> Inl [Txt ''Unable to determine issuer AID'']
         | Some resolved \<Rightarrow>
             (case Prefixer lib resolved of
                Some y \<Rightarrow> Inl [Txt ''Invalid issuer AID format: '', StrExn y]
              | None \<Rightarrow> Inr resolved)) \<and>
      ((\<exists>r. resolve_credential_and_issuer lib store credential override = Inl r) \<longleftrightarrow>
         (find truthy [override, embedded, parent_subject store] = None \<or>
          (\<exists>resolved y. find truthy [override, embedded, parent_subject store] = Some resolved \<and>
             Prefixer lib resolved = Some y))))"
proof (intro conjI impI)
  assume "SerderACDC lib credential False = Inl e"
  then show "resolve_credential_and_issuer lib store credential override =
      Inl [Txt ''Resolution error: '', StrExn e]"
    by (simp add: resolve_credential_and_issuer_def)
next
  assume "SerderACDC lib credential False = Inr sad \<and> \<not> truthy override \<and>
    attribute_issuer credential = Inl x"
  then show "resolve_credential_and_issuer lib store credential override =
      Inl [Txt ''Resolution error: '', StrExn x]"
    by (auto simp: resolve_credential_and_issuer_def attribute_issuer_def split: sum.splits)
next
  assume a: "SerderACDC lib credential False = Inr sad \<and>
    (truthy override \<or> attribute_issuer credential = Inr embedded)"
  show eq: "resolve_credential_and_issuer lib store credential override =
        (case find truthy [override, embedded, parent_subject store] of
           None \<Rightarrow> Inl [Txt ''Unable to determine issuer AID'']
         | Some resolved \<Rightarrow>
             (case Prefixer lib resolved of
                Some y \<Rightarrow> Inl [Txt ''Invalid issuer AID format: '', StrExn y]
              | None \<Rightarrow> Inr resolved))"
  proof (cases "truthy override")
    case True
    with a show ?thesis
      by (simp add: resolve_credential_and_issuer_def Let_def)
  next
    case False
    with a have emb: "attribute_issuer credential = Inr embedded"
      by simp
    show ?thesis
    proof (cases "truthy embedded")
      case True
      with False a emb show ?thesis
        by (simp add: resolve_credential_and_issuer_def attribute_issuer_def Let_def)
    next
      case no: False
      note fb = fallback_truthy [OF no, of store]
      show ?thesis
      proof (cases "truthy (parent_subject store)")
        case True
        with fb have same: "issuer_from_qvi_credential store embedded = parent_subject store"
          by simp
        from True False no a emb show ?thesis
          by (simp add: resolve_credential_and_issuer_def attribute_issuer_def Let_def same)
      next
        case none: False
        with fb have "\<not> truthy (issuer_from_qvi_credential store embedded)"
          by simp
        with none False no a emb show ?thesis
          by (simp add: resolve_credential_and_issuer_def attribute_issuer_def Let_def)
      qed
    qed
  qed
  show "(\<exists>r. resolve_credential_and_issuer lib store credential override = Inl r) \<longleftrightarrow>
         (find truthy [override, embedded, parent_subject store] = None \<or>
          (\<exists>resolved y. find truthy [override, embedded, parent_subject store] = Some resolved \<and>
             Prefixer lib resolved = Some y))"
    unfolding eq by (auto split: option.splits)
qed

text \<open>
  The three cases in the deployment of the example.
\<close>

theorem issuer_resolution_priority_witness:
  "resolve_credential_and_issuer demo_keri demo_store le_credential JNull = Inr (JStr ''EQVI'') \<and>
   find truthy [JNull, JNull, parent_subject demo_store] = Some (JStr ''EQVI'') \<and>
   resolve_credential_and_issuer demo_keri demo_store tampered_credential (JStr ''EQVI'') =
     Inl [Txt ''Resolution error: '', StrExn (ExternalError ''Invalid said field'')] \<and>
   resolve_credential_and_issuer demo_keri demo_store compact_credential JNull =
     Inl [Txt ''Resolution error: '', StrExn AttributeError]"
  using issuer_resolution_priority [where lib = demo_keri and store = demo_store
      and credential = le_credential and override = JNull and embedded = JNull
      and sad = "(''d'', JStr (demo_said (le_body ''did:iota:0x01''))) # le_body ''did:iota:0x01'' @
                [(''p'', JObj [(''d'', JStr ''0BsignedByQVI'')])]"]
    issuer_resolution_priority [where lib = demo_keri and store = demo_store
      and credential = tampered_credential and override = "JStr ''EQVI''"
      and e = "ExternalError ''Invalid said field''"]
    issuer_resolution_priority [where lib = demo_keri and store = demo_store
      and credential = compact_credential and override = JNull and x = AttributeError
      and sad = "(''d'', JStr (demo_said compact_body)) # compact_body @
                [(''p'', JObj [(''d'', JStr ''0BsignedByQVI'')])]"]
  by (simp add: demo_defs code_defs more_defs attribute_issuer_def parent_subject_def Let_def)

section \<open>Internal errors of the endpoint\<close>

text \<open>
  C6, as stated, fails: the body of the 500 response holds the text of the exception, be
  it Flask's on a body that is not JSON or Python's on a credential that is not a dict.
\<close>

theorem internal_error_counterexample:
  "fst (verify_credential demo_keri demo_store demo_start
          (Inl (ExternalError ''400 Bad Request: Failed to decode JSON object''))) =
     \<lparr>status = 500,
      body = Error_body [Txt ''Internal server error: '',
                         StrExn (ExternalError ''400 Bad Request: Failed to decode JSON object'')]\<rparr> \<and>
   fst (verify_credential demo_keri demo_store demo_start (submit (JStr ''no credential''))) =
     \<lparr>status = 500, body = Error_body [Txt ''Internal server error: '', StrExn AttributeError]\<rparr>"
  by (simp add: verify_credential_def internal_server_error_def submit_def)

text \<open>
  C6, amended. An exception \<open>e\<close> raised above the pipeline is answered with status 500
  and the body \<^verbatim>\<open>{success: false, error: "Internal server error: " + str(e)}\<close>; every
  500 response has this form, comes before the refresh and leaves the state as it was.
  The endpoint has no other status than 200, 400 and 500.
\<close>

theorem internal_error_response:
  "(request = Inl e \<longrightarrow>
      verify_credential lib store st request =
        (\<lparr>status = 500, body = Error_body [Txt ''Internal server error: '', StrExn e]\<rparr>, st)) \<and>
   (status (fst (verify_credential lib store st request)) = 500 \<longrightarrow>
      (\<exists>x. verify_credential lib store st request =
         (\<lparr>status = 500, body = Error_body [Txt ''Internal server error: '', StrExn x]\<rparr>, st))) \<and>
   (status (fst (verify_credential lib store st request)) = 200 \<or>
    status (fst (verify_credential lib store st request)) = 400 \<or>
    status (fst (verify_credential lib store st request)) = 500)"
  by (auto simp: verify_credential_def internal_server_error_def Let_def
      split: sum.splits bool.splits verification.splits if_splits)

text \<open>
  A credential that is a number.
\<close>

theorem internal_error_response_witness:
  "status (fst (verify_credential demo_keri demo_store demo_start (submit (JNum 7)))) = 500 \<and>
   verify_credential demo_keri demo_store demo_start (submit (JNum 7)) =
     (\<lparr>status = 500, body = Error_body [Txt ''Internal server error: '', StrExn AttributeError]\<rparr>,
      demo_start)"
  using internal_error_response [where lib = demo_keri and store = demo_store and st = demo_start
      and request = "submit (JNum 7)"]
  by (simp add: verify_credential_def internal_server_error_def submit_def)

section \<open>Malformed inception records\<close>













end
